theory Spec2Isabelle
  imports Main
begin

section \<open>Pranayama breath timer: the model of \<open>script.js\<close>\<close>

text \<open>
  The module state of \<open>script.js\<close> (the \<^verbatim>\<open>let\<close> variables, the three persisted
  arrays and the text of the display elements) is one record, and every handler is a
  function from the state to the state. What a handler reads from outside the module is a
  parameter: the values of the three input fields, the clock reading of
  \<^verbatim>\<open>new Date()\<close>, the answer of \<^verbatim>\<open>confirm\<close>.

  Conventions of the model:
  \<^item> JavaScript numbers that hold counts and seconds are \<open>int\<close> or \<open>nat\<close>; the double
    arithmetic of the source is exact on them below \<open>2^53\<close>.
  \<^item> A \<^verbatim>\<open>Date\<close> is its number of milliseconds on the local time line, a calendar day is
    \<open>86400000\<close> of them, and the key \<^verbatim>\<open>toLocaleDateString()\<close> is the number of the day.
    A date more than \<open>8.64e15\<close> milliseconds from the epoch is invalid.
  \<^item> Every \<^verbatim>\<open>new Date()\<close> is a clock value of its own. \<^verbatim>\<open>startCycle\<close>, \<^verbatim>\<open>finalizeSessionIfActive\<close>
    and \<^verbatim>\<open>filterHistoryByRange\<close> read the clock once; the interval callback reads it in
    \<^verbatim>\<open>addHistoryPhase\<close> and, after Exhale, again in \<^verbatim>\<open>addProgressForToday\<close>.
  \<^item> How \<^verbatim>\<open>new Date(string)\<close> reads the output of \<^verbatim>\<open>toDateString()\<close> is left to the engine
    by the language; the model takes it to give back the start of the day for the years
    1000 to 9999 and keeps the engine's reading of any other year as a parameter.
  \<^item> Strings of the input fields are ASCII.
  \<^item> Speech, \<^verbatim>\<open>localStorage\<close> writes, the history list and the chart are outputs that
    the handlers never read back; they are left out.
  \<^item> A \<^verbatim>\<open>TypeError\<close> (a property read on \<^verbatim>\<open>undefined\<close>) is the result \<open>None\<close>.
  \<^item> The phase names \<^verbatim>\<open>"Inhale"\<close>, \<^verbatim>\<open>"Hold"\<close>, \<^verbatim>\<open>"Exhale"\<close>, the only ones the code
    writes, are a datatype; \<open>phaseText\<close> gives back the string.
\<close>

subsection \<open>Library functions of the language\<close>

definition isWhiteSpace :: "char \<Rightarrow> bool" where
  "isWhiteSpace c = (c \<in> set [CHR 0x09, CHR 0x0A, CHR 0x0B, CHR 0x0C, CHR 0x0D, CHR '' ''])"

definition digitValue :: "char \<Rightarrow> nat" where
  \<comment> \<open>the value of a digit in radix up to 36; 36 for a character that is no digit\<close>
  "digitValue c =
     (let n = (of_char c :: nat) in
      if 48 \<le> n \<and> n \<le> 57 then n - 48
      else if 97 \<le> n \<and> n \<le> 122 then n - 87
      else if 65 \<le> n \<and> n \<le> 90 then n - 55
      else 36)"

definition hasHexPrefix :: "string \<Rightarrow> bool" where
  "hasHexPrefix str = (take 2 str = ''0x'' \<or> take 2 str = ''0X'')"

definition parseDigits :: "nat \<Rightarrow> string \<Rightarrow> int option" where
  \<comment> \<open>the longest prefix of digits of the radix; \<open>None\<close> is NaN\<close>
  "parseDigits radix str =
     (let z = takeWhile (\<lambda>c. digitValue c < radix) str in
      if z = [] then None
      else Some (foldl (\<lambda>acc c. acc * int radix + int (digitValue c)) 0 z))"

definition parseIntRadix :: "nat option \<Rightarrow> string \<Rightarrow> int option" where
  \<comment> \<open>\<^verbatim>\<open>parseInt(str)\<close> is \<open>parseIntRadix None\<close>, \<^verbatim>\<open>parseInt(str, 10)\<close> is
      \<open>parseIntRadix (Some 10)\<close>; a radix of 0 counts as none, a radix outside 2..36
      gives NaN\<close>
  "parseIntRadix radix str =
     (let s0 = dropWhile isWhiteSpace str;
          negative = (take 1 s0 = ''-'');
          s1 = (if take 1 s0 = ''-'' \<or> take 1 s0 = ''+'' then drop 1 s0 else s0);
          r0 = (case radix of None \<Rightarrow> 0 | Some k \<Rightarrow> k);
          hex = ((r0 = 0 \<or> r0 = 16) \<and> hasHexPrefix s1);
          r = (if hex then 16 else if r0 = 0 then 10 else r0);
          s2 = (if hex then drop 2 s1 else s1)
      in if r < 2 \<or> 36 < r then None
         else map_option (\<lambda>m. if negative then - m else m) (parseDigits r s2))"

abbreviation parseInt :: "string \<Rightarrow> int option" where
  "parseInt \<equiv> parseIntRadix None"

definition orDefault :: "int option \<Rightarrow> int \<Rightarrow> int" where
  \<comment> \<open>\<^verbatim>\<open>v || d\<close> on a number: NaN and zero are falsy\<close>
  "orDefault v d = (case v of None \<Rightarrow> d | Some n \<Rightarrow> if n = 0 then d else n)"

fun natToString :: "nat \<Rightarrow> string" where
  "natToString n =
     (if n < 10 then [char_of (48 + n)]
      else natToString (n div 10) @ [char_of (48 + n mod 10)])"

definition numToString :: "int \<Rightarrow> string" where
  "numToString i = (if i < 0 then CHR ''-'' # natToString (nat (- i)) else natToString (nat i))"

definition padStart :: "nat \<Rightarrow> char \<Rightarrow> string \<Rightarrow> string" where
  "padStart n c str = replicate (n - length str) c @ str"

definition toLowerCase :: "string \<Rightarrow> string" where
  "toLowerCase str =
     map (\<lambda>c. let n = (of_char c :: nat) in if 65 \<le> n \<and> n \<le> 90 then char_of (n + 32) else c) str"

subsection \<open>Clock and calendar\<close>

type_synonym timestamp = int
type_synonym dayKey = int

definition msPerDay :: int where
  "msPerDay = 86400000"

definition dayOf :: "timestamp \<Rightarrow> dayKey" where
  \<comment> \<open>\<^verbatim>\<open>toLocaleDateString()\<close>: the calendar day of an instant\<close>
  "dayOf t = t div msPerDay"

definition maxTime :: int where
  "maxTime = 8640000000000000"

definition timeClip :: "int \<Rightarrow> timestamp option" where
  \<comment> \<open>the time value of a date; \<open>None\<close> is the invalid date\<close>
  "timeClip t = (if - maxTime \<le> t \<and> t \<le> maxTime then Some t else None)"

definition shiftDays :: "timestamp \<Rightarrow> int \<Rightarrow> timestamp option" where
  \<comment> \<open>\<^verbatim>\<open>d.setDate(d.getDate() + k)\<close> on a valid date \<open>d\<close>\<close>
  "shiftDays t k = timeClip (t + k * msPerDay)"

definition firstPlainDay :: dayKey where
  \<comment> \<open>1 January 1000\<close>
  "firstPlainDay = - 354285"

definition lastPlainDay :: dayKey where
  \<comment> \<open>31 December 9999\<close>
  "lastPlainDay = 2932896"

definition midnight :: "(dayKey \<Rightarrow> timestamp option) \<Rightarrow> timestamp \<Rightarrow> timestamp option" where
  \<comment> \<open>\<^verbatim>\<open>new Date(d.toDateString())\<close> on a valid date \<open>d\<close>: the start of the day of \<open>d\<close>
      when its year is written with four plain digits; otherwise what the engine makes of
      the date string, given the day (the parameter \<open>engine\<close>)\<close>
  "midnight engine t =
     (if firstPlainDay \<le> dayOf t \<and> dayOf t \<le> lastPlainDay then Some (dayOf t * msPerDay)
      else engine (dayOf t))"

definition rejectingEngine :: "dayKey \<Rightarrow> timestamp option" where
  \<comment> \<open>an engine that reads no date string outside the years 1000 to 9999\<close>
  "rejectingEngine d = None"

subsection \<open>Data\<close>

datatype phaseName = Inhale | Hold | Exhale

fun phaseText :: "phaseName \<Rightarrow> string" where
  "phaseText Inhale = ''Inhale''"
| "phaseText Hold = ''Hold''"
| "phaseText Exhale = ''Exhale''"

record phaseSpec =
  phase :: phaseName
  duration :: int

record historyEntry =
  ts :: timestamp
  phase :: phaseName
  duration :: int

record sessionSummary =
  startISO :: timestamp
  endISO :: timestamp
  cycles :: nat
  durationSec :: int
  inhale :: int
  hold :: int
  exhale :: int

record inputs =
  inhaleInput :: string
  holdInput :: string
  exhaleInput :: string

record timerState =
  cycle :: "phaseSpec list"
  cycleIndex :: nat
  timeLeft :: int
  timer :: "phaseSpec option"
  running :: bool
  paused :: bool
  sessionStartTime :: "timestamp option"
  sessionCycles :: nat
  sessionActive :: bool
  historyData :: "historyEntry list"
  sessionSummaries :: "sessionSummary list"
  progressData :: "dayKey \<rightharpoonup> nat"
  phaseDisplay :: string
  timeDisplay :: string
  pauseBtn :: string

subsection \<open>Boot\<close>

definition initialState :: "string \<Rightarrow> timerState" where
  \<comment> \<open>the module's initial values, \<^verbatim>\<open>loadFromStorage\<close> on an empty storage and \<^verbatim>\<open>init\<close>;
      the label of the pause button comes from the page's markup and is a parameter\<close>
  "initialState label =
     \<lparr>cycle = [], cycleIndex = 0, timeLeft = 0, timer = None, running = False,
      paused = False, sessionStartTime = None, sessionCycles = 0, sessionActive = False,
      historyData = [], sessionSummaries = [], progressData = Map.empty,
      phaseDisplay = ''Press Start'', timeDisplay = ''00'', pauseBtn = label\<rparr>"

subsection \<open>Core timer logic\<close>

definition setupCycleFromInputs :: "inputs \<Rightarrow> timerState \<Rightarrow> timerState" where
  "setupCycleFromInputs inp s =
     (let inhale = max 1 (orDefault (parseInt (inhaleInput inp)) 4);
          hold = max 1 (orDefault (parseInt (holdInput inp)) 7);
          exhale = max 1 (orDefault (parseInt (exhaleInput inp)) 8)
      in s\<lparr>cycle :=
            [\<lparr>phaseSpec.phase = Inhale, phaseSpec.duration = inhale\<rparr>,
             \<lparr>phaseSpec.phase = Hold, phaseSpec.duration = hold\<rparr>,
             \<lparr>phaseSpec.phase = Exhale, phaseSpec.duration = exhale\<rparr>]\<rparr>)"

definition addHistoryPhase :: "timestamp \<Rightarrow> phaseName \<Rightarrow> int \<Rightarrow> timerState \<Rightarrow> timerState" where
  \<comment> \<open>the entry's \<^verbatim>\<open>text\<close> field repeats phase and duration and is never read\<close>
  "addHistoryPhase now ph dur s =
     s\<lparr>historyData := historyData s @ [\<lparr>ts = now, phase = ph, duration = dur\<rparr>]\<rparr>"

definition progressCount :: "timerState \<Rightarrow> dayKey \<Rightarrow> nat" where
  \<comment> \<open>\<^verbatim>\<open>progressData[key] || 0\<close>\<close>
  "progressCount s key = (case progressData s key of None \<Rightarrow> 0 | Some n \<Rightarrow> n)"

definition addProgressForToday :: "timestamp \<Rightarrow> nat \<Rightarrow> timerState \<Rightarrow> timerState" where
  "addProgressForToday now count s =
     (let key = dayOf now
      in s\<lparr>progressData := (progressData s)(key \<mapsto> progressCount s key + count)\<rparr>)"

definition startPhase :: "timerState \<Rightarrow> timerState option" where
  \<comment> \<open>\<^verbatim>\<open>cycle[cycleIndex]\<close> out of range is \<^verbatim>\<open>undefined\<close>, and reading its \<^verbatim>\<open>phase\<close> throws;
      the interval that is set keeps \<^verbatim>\<open>current\<close> in its closure\<close>
  "startPhase s =
     (if cycleIndex s < length (cycle s) then
        (let current = cycle s ! cycleIndex s
         in Some (s\<lparr>phaseDisplay := phaseText (phaseSpec.phase current),
                    timeDisplay := padStart 2 CHR ''0'' (numToString (phaseSpec.duration current)),
                    timeLeft := phaseSpec.duration current,
                    timer := Some current\<rparr>))
      else None)"

definition timerCallback ::
  "timestamp \<Rightarrow> timestamp \<Rightarrow> phaseSpec \<Rightarrow> timerState \<Rightarrow> timerState option" where
  \<comment> \<open>the function given to \<^verbatim>\<open>setInterval\<close>; \<open>nowEntry\<close> is the clock value that
      \<^verbatim>\<open>addHistoryPhase\<close> reads and \<open>nowProgress\<close> the one that \<^verbatim>\<open>addProgressForToday\<close> reads
      afterwards; with an empty cycle the remainder is NaN in the source and \<open>startPhase\<close>
      throws, as it does here\<close>
  "timerCallback nowEntry nowProgress current s =
     (if paused s then Some s
      else
        (let s1 = s\<lparr>timeLeft := timeLeft s - 1\<rparr>;
             s2 = s1\<lparr>timeDisplay := padStart 2 CHR ''0'' (numToString (timeLeft s1))\<rparr>
         in if timeLeft s2 \<le> 0 then
              (let s3 = s2\<lparr>timer := None\<rparr>;
                   s4 = addHistoryPhase nowEntry (phaseSpec.phase current)
                          (phaseSpec.duration current) s3;
                   s5 = s4\<lparr>cycleIndex := (cycleIndex s4 + 1) mod length (cycle s4)\<rparr>;
                   s6 = (if toLowerCase (phaseText (phaseSpec.phase current)) = ''exhale''
                         then addProgressForToday nowProgress 1
                                (s5\<lparr>sessionCycles := sessionCycles s5 + 1\<rparr>)
                         else s5)
               in startPhase s6)
            else Some s2))"

definition tick :: "timestamp \<times> timestamp \<Rightarrow> timerState \<Rightarrow> timerState option" where
  \<comment> \<open>one firing of the interval, with the two clock values it may read; nothing fires
      when no interval is set\<close>
  "tick reads s =
     (case timer s of
        None \<Rightarrow> Some s
      | Some current \<Rightarrow> timerCallback (fst reads) (snd reads) current s)"

definition startCycle :: "inputs \<Rightarrow> timestamp \<Rightarrow> timerState \<Rightarrow> timerState option" where
  "startCycle inp now s =
     (if running s then Some s
      else
        (let s1 = setupCycleFromInputs inp s;
             s2 = s1\<lparr>running := True, paused := False, cycleIndex := 0\<rparr>
         in case cycle s2 of
              [] \<Rightarrow> None
            | first # _ \<Rightarrow>
                (let s3 = s2\<lparr>timeLeft := phaseSpec.duration first\<rparr>;
                     s4 = (if sessionActive s3 then s3
                           else s3\<lparr>sessionActive := True, sessionStartTime := Some now,
                                   sessionCycles := 0\<rparr>)
                 in startPhase s4)))"

definition pauseOrResume :: "timerState \<Rightarrow> timerState" where
  "pauseOrResume s =
     (if running s then
        (let s1 = s\<lparr>paused := (\<not> paused s)\<rparr>
         in s1\<lparr>pauseBtn := (if paused s1 then ''Resume'' else ''Pause'')\<rparr>)
      else s)"

definition finalizeSessionIfActive :: "inputs \<Rightarrow> timestamp \<Rightarrow> timerState \<Rightarrow> timerState" where
  \<comment> \<open>\<^verbatim>\<open>Math.round\<close> of a number of milliseconds over 1000 rounds halves upwards\<close>
  "finalizeSessionIfActive inp now s =
     (if sessionActive s then
        (let s1 = s\<lparr>sessionActive := False\<rparr>;
             end = now;
             start = (case sessionStartTime s1 of None \<Rightarrow> end | Some t \<Rightarrow> t);
             summary =
               \<lparr>startISO = start, endISO = end, cycles = sessionCycles s1,
                durationSec = (end - start + 500) div 1000,
                inhale = orDefault (parseInt (inhaleInput inp)) 4,
                hold = orDefault (parseInt (holdInput inp)) 7,
                exhale = orDefault (parseInt (exhaleInput inp)) 8\<rparr>
         in s1\<lparr>sessionSummaries := sessionSummaries s1 @ [summary]\<rparr>)
      else s)"

definition resetCycle :: "inputs \<Rightarrow> timestamp \<Rightarrow> timerState \<Rightarrow> timerState" where
  "resetCycle inp now s =
     (finalizeSessionIfActive inp now s)
       \<lparr>timer := None, running := False, paused := False, sessionActive := False,
        sessionStartTime := None, sessionCycles := 0, cycleIndex := 0, timeLeft := 0,
        phaseDisplay := ''Press Start'', timeDisplay := ''00'', pauseBtn := ''Pause''\<rparr>"

definition clearAllHistory :: "bool \<Rightarrow> timerState \<Rightarrow> timerState" where
  \<comment> \<open>the first parameter is the answer of \<^verbatim>\<open>confirm\<close>\<close>
  "clearAllHistory confirmed s =
     (if confirmed then s\<lparr>historyData := [], sessionSummaries := [], progressData := Map.empty\<rparr>
      else s)"

definition filterHistoryByRange ::
  "(dayKey \<Rightarrow> timestamp option) \<Rightarrow> timestamp \<Rightarrow> string \<Rightarrow> timerState \<Rightarrow> historyEntry list" where
  \<comment> \<open>a range that is no number, a cutoff beyond the range of dates and a date string
      that the engine does not read all make the cutoff an invalid date, and no entry
      compares greater or equal to it\<close>
  "filterHistoryByRange engine now rangeValue s =
     (if rangeValue = ''all'' then historyData s
      else case parseIntRadix (Some 10) rangeValue of
             None \<Rightarrow> []
           | Some days \<Rightarrow>
               (case shiftDays now (- (days - 1)) of
                  None \<Rightarrow> []
                | Some cutoff \<Rightarrow>
                    (case midnight engine cutoff of
                       None \<Rightarrow> []
                     | Some start \<Rightarrow> filter (\<lambda>h. start \<le> ts h) (historyData s))))"

subsection \<open>Runs of the handlers\<close>

datatype event =
    Start inputs timestamp
  | Tick "timestamp \<times> timestamp"
  | PauseToggle
  | Reset inputs timestamp
  | Clear bool

fun step :: "event \<Rightarrow> timerState \<Rightarrow> timerState option" where
  "step (Start inp now) s = startCycle inp now s"
| "step (Tick reads) s = tick reads s"
| "step PauseToggle s = Some (pauseOrResume s)"
| "step (Reset inp now) s = Some (resetCycle inp now s)"
| "step (Clear confirmed) s = Some (clearAllHistory confirmed s)"

fun run :: "event list \<Rightarrow> timerState \<Rightarrow> timerState option" where
  "run [] s = Some s"
| "run (e # es) s = (case step e s of None \<Rightarrow> None | Some s' \<Rightarrow> run es s')"





subsection \<open>A concrete session\<close>

definition inputs478 :: inputs where
  "inputs478 = \<lparr>inhaleInput = ''4'', holdInput = ''7'', exhaleInput = ''8''\<rparr>"

definition started478 :: timerState where
  \<comment> \<open>the state right after Start with the inputs 4, 7, 8 at time 0 on a fresh page\<close>
  "started478 =
     \<lparr>cycle = [\<lparr>phaseSpec.phase = Inhale, phaseSpec.duration = 4\<rparr>,
               \<lparr>phaseSpec.phase = Hold, phaseSpec.duration = 7\<rparr>,
               \<lparr>phaseSpec.phase = Exhale, phaseSpec.duration = 8\<rparr>],
      cycleIndex = 0, timeLeft = 4,
      timer = Some \<lparr>phaseSpec.phase = Inhale, phaseSpec.duration = 4\<rparr>,
      running = True, paused = False, sessionStartTime = Some 0, sessionCycles = 0,
      sessionActive = True, historyData = [], sessionSummaries = [],
      progressData = Map.empty, phaseDisplay = ''Inhale'', timeDisplay = ''04'',
      pauseBtn = ''Pause''\<rparr>"

subsection \<open>Predicates used in the proofs\<close>


definition flagsInv :: "timerState \<Rightarrow> bool" where
  "flagsInv s = ((timer s = None \<or> cycle s \<noteq> []) \<and> running s = sessionActive s)"

text \<open>
  What completing the phase \<open>current\<close> with the clock values \<open>reads\<close> makes of a
  state \<open>s\<close>: the entry appended, the index advanced, the next phase armed and, after
  Exhale, the cycle counted and the day's progress raised.
\<close>

definition phaseDone ::
  "timestamp \<times> timestamp \<Rightarrow> phaseSpec \<Rightarrow> timerState \<Rightarrow> timerState \<Rightarrow> bool" where
  "phaseDone reads current s s' =
     (let i = (cycleIndex s + 1) mod length (cycle s); next = cycle s ! i
      in cycle s' = cycle s \<and> cycleIndex s' = i \<and> timer s' = Some next \<and>
         timeLeft s' = phaseSpec.duration next \<and> paused s' = paused s \<and>
         historyData s' =
           historyData s @
             [\<lparr>ts = fst reads, phase = phaseSpec.phase current,
               duration = phaseSpec.duration current\<rparr>] \<and>
         sessionCycles s' =
           (if phaseSpec.phase current = Exhale then sessionCycles s + 1 else sessionCycles s) \<and>
         progressData s' =
           (if phaseSpec.phase current = Exhale
            then (progressData s)
                   (dayOf (snd reads) \<mapsto> progressCount s (dayOf (snd reads)) + 1)
            else progressData s))"

section \<open>Basic facts\<close>

lemma toLowerCase_Inhale: "toLowerCase ''Inhale'' = ''inhale''"
  by code_simp

lemma toLowerCase_Hold: "toLowerCase ''Hold'' = ''hold''"
  by code_simp

lemma toLowerCase_Exhale: "toLowerCase ''Exhale'' = ''exhale''"
  by code_simp

lemma toLowerCase_phaseText: "(toLowerCase (phaseText p) = ''exhale'') = (p = Exhale)"
  by (cases p) (simp_all add: toLowerCase_Inhale toLowerCase_Hold toLowerCase_Exhale)

lemma parseInt_empty: "parseInt [] = None"
  by (simp add: parseIntRadix_def parseDigits_def hasHexPrefix_def)

lemma parseInt_478:
  "parseInt ''4'' = Some 4" "parseInt ''7'' = Some 7" "parseInt ''8'' = Some 8"
  by (simp_all add: parseIntRadix_def parseDigits_def hasHexPrefix_def isWhiteSpace_def
        digitValue_def)

lemma parseInt10_76:
  "parseIntRadix (Some 10) ''7'' = Some 7" "parseIntRadix (Some 10) ''6'' = Some 6"
  by (simp_all add: parseIntRadix_def parseDigits_def hasHexPrefix_def isWhiteSpace_def
        digitValue_def)

lemma parseInt10_all: "parseIntRadix (Some 10) ''all'' = None"
  by (simp add: parseIntRadix_def parseDigits_def hasHexPrefix_def isWhiteSpace_def
        digitValue_def)

lemma pad_04: "padStart 2 CHR ''0'' (numToString 4) = ''04''"
  by code_simp

lemma setup_cycle:
  "cycle (setupCycleFromInputs inp s) =
     [\<lparr>phaseSpec.phase = Inhale,
       phaseSpec.duration = max 1 (orDefault (parseInt (inhaleInput inp)) 4)\<rparr>,
      \<lparr>phaseSpec.phase = Hold,
       phaseSpec.duration = max 1 (orDefault (parseInt (holdInput inp)) 7)\<rparr>,
      \<lparr>phaseSpec.phase = Exhale,
       phaseSpec.duration = max 1 (orDefault (parseInt (exhaleInput inp)) 8)\<rparr>]"
  by (simp add: setupCycleFromInputs_def Let_def)

lemma started478_reached:
  "startCycle inputs478 0 (initialState ''Pause'') = Some started478"
  by (simp add: startCycle_def setupCycleFromInputs_def startPhase_def initialState_def
        inputs478_def started478_def parseInt_478 orDefault_def pad_04 Let_def)

lemma run_append:
  "run (es @ fs) s = (case run es s of None \<Rightarrow> None | Some s' \<Rightarrow> run fs s')"
  by (induction es arbitrary: s) (simp_all split: option.splits)

lemma tick_paused: "paused s \<Longrightarrow> tick reads s = Some s"
  by (simp add: tick_def timerCallback_def split: option.splits)

lemma run_ticks_paused: "paused s \<Longrightarrow> run (map Tick tks) s = Some s"
  by (induction tks) (simp_all add: tick_paused)

lemma tick_countdown:
  assumes "timer s = Some current" "\<not> paused s" "1 < timeLeft s"
  shows "tick reads s =
           Some (s\<lparr>timeLeft := timeLeft s - 1,
                   timeDisplay := padStart 2 CHR ''0'' (numToString (timeLeft s - 1))\<rparr>)"
  using assms by (simp add: tick_def timerCallback_def Let_def)

subsection \<open>Calendar arithmetic\<close>

lemma msPerDay_pos: "0 < msPerDay"
  by (simp add: msPerDay_def)

lemma day_le_iff: "k * msPerDay \<le> t \<longleftrightarrow> k \<le> t div msPerDay"
proof
  assume "k * msPerDay \<le> t"
  then have "(k * msPerDay) div msPerDay \<le> t div msPerDay"
    using msPerDay_pos by (intro zdiv_mono1) simp_all
  then show "k \<le> t div msPerDay"
    using msPerDay_pos by simp
next
  assume "k \<le> t div msPerDay"
  then have "k * msPerDay \<le> (t div msPerDay) * msPerDay"
    using msPerDay_pos by (simp add: mult_right_mono)
  also have "\<dots> \<le> t"
  proof -
    have "t = (t div msPerDay) * msPerDay + t mod msPerDay"
      by simp
    moreover have "0 \<le> t mod msPerDay"
      using msPerDay_pos by simp
    ultimately show ?thesis
      by linarith
  qed
  finally show "k * msPerDay \<le> t" .
qed

lemma dayOf_shift: "dayOf (now - k * msPerDay) = dayOf now - k"
  using msPerDay_pos div_mult_self1 [of msPerDay now "- k"] by (simp add: dayOf_def)

lemma plain_day_valid:
  assumes "firstPlainDay \<le> dayOf t" "dayOf t \<le> lastPlainDay"
  shows "timeClip t = Some t"
proof -
  have low: "dayOf t * msPerDay \<le> t"
    by (simp add: day_le_iff dayOf_def)
  have "\<not> (dayOf t + 1) * msPerDay \<le> t"
    by (simp add: day_le_iff dayOf_def)
  then have high: "t < (dayOf t + 1) * msPerDay"
    by simp
  from assms(1) have "firstPlainDay * msPerDay \<le> dayOf t * msPerDay"
    using msPerDay_pos by (simp add: mult_right_mono)
  with low have "- maxTime \<le> t"
    by (simp add: firstPlainDay_def msPerDay_def maxTime_def)
  moreover from assms(2) have "(dayOf t + 1) * msPerDay \<le> (lastPlainDay + 1) * msPerDay"
    using msPerDay_pos by (simp add: mult_right_mono)
  with high have "t \<le> maxTime"
    by (simp add: lastPlainDay_def msPerDay_def maxTime_def)
  ultimately show ?thesis
    by (simp add: timeClip_def)
qed

lemma cutoff_start:
  assumes "firstPlainDay \<le> dayOf now - k" "dayOf now - k \<le> lastPlainDay"
  shows "shiftDays now (- k) = Some (now - k * msPerDay)"
    and "midnight engine (now - k * msPerDay) = Some ((dayOf now - k) * msPerDay)"
proof -
  have day: "dayOf (now - k * msPerDay) = dayOf now - k"
    by (rule dayOf_shift)
  with assms have "timeClip (now - k * msPerDay) = Some (now - k * msPerDay)"
    by (intro plain_day_valid) simp_all
  then show "shiftDays now (- k) = Some (now - k * msPerDay)"
    by (simp add: shiftDays_def)
  from assms day show "midnight engine (now - k * msPerDay) = Some ((dayOf now - k) * msPerDay)"
    by (simp add: midnight_def)
qed

section \<open>The history filter\<close>

text \<open>
  Claim C1, as the code has it. For a range that reads as a number \<open>n\<close> of at least 1,
  with today and the cutoff day (today minus \<open>n - 1\<close>) both dates of the years 1000 to
  9999, \<^verbatim>\<open>filterHistoryByRange\<close> keeps exactly the entries whose day is the cutoff day or
  later, in the ledger's order; the entries of today are all kept. So today counts as the
  first of the \<open>n\<close> days, and with the range \<open>7\<close> the oldest day kept is the one six days
  before today.
\<close>

theorem filterHistoryByRange_window:
  assumes "parseIntRadix (Some 10) rangeValue = Some n" "1 \<le> n"
    "firstPlainDay \<le> dayOf now - (n - 1)" "dayOf now \<le> lastPlainDay"
  shows "filterHistoryByRange engine now rangeValue s =
           filter (\<lambda>h. dayOf now - (n - 1) \<le> dayOf (ts h)) (historyData s) \<and>
         filter (\<lambda>h. dayOf (ts h) = dayOf now) (filterHistoryByRange engine now rangeValue s) =
           filter (\<lambda>h. dayOf (ts h) = dayOf now) (historyData s)"
proof -
  from assms(1) have named: "rangeValue \<noteq> ''all''"
    using parseInt10_all by auto
  from assms(2,4) have upper: "dayOf now - (n - 1) \<le> lastPlainDay"
    by simp
  have shifted: "shiftDays now (- (n - 1)) = Some (now - (n - 1) * msPerDay)"
    by (rule cutoff_start(1) [OF assms(3) upper])
  have start: "midnight engine (now - (n - 1) * msPerDay) = Some ((dayOf now - (n - 1)) * msPerDay)"
    by (rule cutoff_start(2) [OF assms(3) upper])
  have "(dayOf now - (n - 1)) * msPerDay \<le> t \<longleftrightarrow> dayOf now - (n - 1) \<le> dayOf t" for t
    by (simp add: day_le_iff dayOf_def)
  then have window: "filterHistoryByRange engine now rangeValue s =
      filter (\<lambda>h. dayOf now - (n - 1) \<le> dayOf (ts h)) (historyData s)"
    unfolding filterHistoryByRange_def using named assms(1) shifted start
    by (simp del: minus_diff_eq)
  have "filter (\<lambda>h. dayOf (ts h) = dayOf now)
          (filter (\<lambda>h. dayOf now - (n - 1) \<le> dayOf (ts h)) (historyData s)) =
        filter (\<lambda>h. dayOf (ts h) = dayOf now) (historyData s)"
    using assms(2) by (auto intro: filter_cong)
  with window show ?thesis
    by simp
qed

text \<open>
  The theorem at a ledger with entries seven days ago, six days ago and today: the range
  \<open>7\<close> keeps the last two, the range \<open>6\<close> only today's.
\<close>

theorem filterHistoryByRange_window_witness:
  "parseIntRadix (Some 10) ''7'' = Some 7 \<and>
   parseIntRadix (Some 10) ''6'' = Some 6 \<and>
   firstPlainDay \<le> dayOf 691201000 - (7 - 1) \<and> dayOf 691201000 \<le> lastPlainDay \<and>
   filterHistoryByRange rejectingEngine 691201000 ''7''
     ((initialState ''Pause'')
        \<lparr>historyData := [\<lparr>ts = 86401000, phase = Exhale, duration = 8\<rparr>,
                         \<lparr>ts = 172801000, phase = Exhale, duration = 8\<rparr>,
                         \<lparr>ts = 691200500, phase = Inhale, duration = 4\<rparr>]\<rparr>)
     = [\<lparr>ts = 172801000, phase = Exhale, duration = 8\<rparr>,
        \<lparr>ts = 691200500, phase = Inhale, duration = 4\<rparr>] \<and>
   filterHistoryByRange rejectingEngine 691201000 ''6''
     ((initialState ''Pause'')
        \<lparr>historyData := [\<lparr>ts = 86401000, phase = Exhale, duration = 8\<rparr>,
                         \<lparr>ts = 172801000, phase = Exhale, duration = 8\<rparr>,
                         \<lparr>ts = 691200500, phase = Inhale, duration = 4\<rparr>]\<rparr>)
     = [\<lparr>ts = 691200500, phase = Inhale, duration = 4\<rparr>]"
proof -
  have days: "firstPlainDay \<le> dayOf 691201000 - (7 - 1)"
    "firstPlainDay \<le> dayOf 691201000 - (6 - 1)" "dayOf 691201000 \<le> lastPlainDay"
    by (simp_all add: firstPlainDay_def lastPlainDay_def dayOf_def msPerDay_def)
  from filterHistoryByRange_window [OF parseInt10_76(1) _ days(1) days(3), of rejectingEngine]
    filterHistoryByRange_window [OF parseInt10_76(2) _ days(2) days(3), of rejectingEngine]
    days
  show ?thesis
    by (simp add: parseInt10_76 dayOf_def msPerDay_def)
qed

text \<open>
  Claim C1 as the specification words it fails: the clock reads 691201000 (day 8), one
  entry is exactly seven calendar days older (day 1), one is of today, and the range \<open>7\<close>
  returns only today's entry.
\<close>

theorem filterHistoryByRange_seven_days_counterexample:
  "shiftDays 691201000 (- 7) = Some 86401000 \<and> dayOf 86401000 = dayOf 691201000 - 7 \<and>
   filterHistoryByRange rejectingEngine 691201000 ''7''
     ((initialState ''Pause'')
        \<lparr>historyData := [\<lparr>ts = 86401000, phase = Exhale, duration = 8\<rparr>,
                         \<lparr>ts = 691200500, phase = Inhale, duration = 4\<rparr>]\<rparr>)
     = [\<lparr>ts = 691200500, phase = Inhale, duration = 4\<rparr>]"
  by (simp add: filterHistoryByRange_def parseInt10_76 midnight_def shiftDays_def dayOf_def
        msPerDay_def timeClip_def maxTime_def firstPlainDay_def lastPlainDay_def)

section \<open>Configuration\<close>

text \<open>
  Claim C4, as the code has it. \<^verbatim>\<open>setupCycleFromInputs\<close> always builds the three phases
  Inhale, Hold, Exhale, each with a duration of at least 1 and never an error. An input
  that \<^verbatim>\<open>parseInt\<close> reads as no number (an empty or non-numeric field) or as zero gives
  the default 4, 7 or 8; a negative input gives 1; a positive input is kept.
\<close>

theorem setupCycleFromInputs_durations:
  "map phaseSpec.phase (cycle (setupCycleFromInputs inp s)) = [Inhale, Hold, Exhale] \<and>
   map phaseSpec.duration (cycle (setupCycleFromInputs inp s)) =
     [case parseInt (inhaleInput inp) of None \<Rightarrow> 4
        | Some n \<Rightarrow> if n = 0 then 4 else if n < 0 then 1 else n,
      case parseInt (holdInput inp) of None \<Rightarrow> 7
        | Some n \<Rightarrow> if n = 0 then 7 else if n < 0 then 1 else n,
      case parseInt (exhaleInput inp) of None \<Rightarrow> 8
        | Some n \<Rightarrow> if n = 0 then 8 else if n < 0 then 1 else n] \<and>
   list_all (\<lambda>p. 1 \<le> phaseSpec.duration p) (cycle (setupCycleFromInputs inp s)) \<and>
   parseInt [] = None"
  by (simp add: setup_cycle orDefault_def parseInt_empty split: option.splits)

text \<open>
  Claim C4 as the specification words it fails: the non-numeric input \<open>abc\<close> gives the
  inhale duration 4 and the input \<open>0\<close> gives the hold duration 7, where the claim
  promises the minimum 1; only the negative input is raised to 1.
\<close>

theorem setupCycleFromInputs_clamp_counterexample:
  "parseInt ''abc'' = None \<and> parseInt ''0'' = Some 0 \<and> parseInt ''-2'' = Some (- 2) \<and>
   map phaseSpec.duration
     (cycle (setupCycleFromInputs
        \<lparr>inhaleInput = ''abc'', holdInput = ''0'', exhaleInput = ''-2''\<rparr>
        (initialState ''Pause'')))
     = [4, 7, 1]"
  by (simp add: setup_cycle orDefault_def parseIntRadix_def parseDigits_def
        hasHexPrefix_def isWhiteSpace_def digitValue_def)

section \<open>Session summaries\<close>

text \<open>
  Claim C5 at the inputs \<open>-3\<close>, 7, 8, unchanged from Start to Reset: the cycle of the
  session runs with the durations 1, 7, 8, and the summary that \<^verbatim>\<open>finalizeSessionIfActive\<close>
  appends records \<open>-3\<close>, 7, 8. The summary parses the input fields again and leaves out
  the lower bound of \<^verbatim>\<open>setupCycleFromInputs\<close>.
\<close>

theorem summary_durations_diverge:
  "map phaseSpec.duration
     (cycle (setupCycleFromInputs
        \<lparr>inhaleInput = ''-3'', holdInput = ''7'', exhaleInput = ''8''\<rparr>
        (initialState ''Pause'')))
     = [1, 7, 8] \<and>
   map_option (\<lambda>s. map (\<lambda>m. [inhale m, hold m, exhale m]) (sessionSummaries s))
     (run [Start \<lparr>inhaleInput = ''-3'', holdInput = ''7'', exhaleInput = ''8''\<rparr> 0,
           Reset \<lparr>inhaleInput = ''-3'', holdInput = ''7'', exhaleInput = ''8''\<rparr> 1000]
        (initialState ''Pause''))
     = Some [[- 3, 7, 8]]"
  by code_simp

text \<open>
  Claim C6. \<^verbatim>\<open>resetCycle\<close> on an active session appends exactly one summary, whose cycle
  count is the session's count so far; on an inactive session it leaves the summaries as
  they are, and finalizing alone changes nothing. In both cases the phase display, the
  countdown, the flags, the cycle index, the interval and the session variables are those
  of the initial state.
\<close>

theorem reset_finalizes_once:
  "(sessionActive s \<longrightarrow>
      length (sessionSummaries (resetCycle inp now s)) = Suc (length (sessionSummaries s)) \<and>
      butlast (sessionSummaries (resetCycle inp now s)) = sessionSummaries s \<and>
      cycles (last (sessionSummaries (resetCycle inp now s))) = sessionCycles s) \<and>
   (\<not> sessionActive s \<longrightarrow>
      sessionSummaries (resetCycle inp now s) = sessionSummaries s \<and>
      finalizeSessionIfActive inp now s = s) \<and>
   phaseDisplay (resetCycle inp now s) = phaseDisplay (initialState label) \<and>
   timeDisplay (resetCycle inp now s) = timeDisplay (initialState label) \<and>
   timeLeft (resetCycle inp now s) = timeLeft (initialState label) \<and>
   running (resetCycle inp now s) = running (initialState label) \<and>
   paused (resetCycle inp now s) = paused (initialState label) \<and>
   cycleIndex (resetCycle inp now s) = cycleIndex (initialState label) \<and>
   timer (resetCycle inp now s) = timer (initialState label) \<and>
   sessionActive (resetCycle inp now s) = sessionActive (initialState label) \<and>
   sessionCycles (resetCycle inp now s) = sessionCycles (initialState label) \<and>
   sessionStartTime (resetCycle inp now s) = sessionStartTime (initialState label)"
  by (simp add: resetCycle_def finalizeSessionIfActive_def initialState_def Let_def)

text \<open>
  The theorem at the session started with 4, 7, 8 and reset at second 9.5 (one summary,
  no cycle yet, the display back to \<open>Press Start\<close>), and at the initial state.
\<close>

theorem reset_finalizes_once_witness:
  "sessionActive started478 \<and>
   map cycles (sessionSummaries (resetCycle inputs478 9500 started478)) = [0] \<and>
   phaseDisplay (resetCycle inputs478 9500 started478) = ''Press Start'' \<and>
   timeDisplay (resetCycle inputs478 9500 started478) = ''00'' \<and>
   \<not> sessionActive (initialState ''Pause'') \<and>
   sessionSummaries (resetCycle inputs478 9500 (initialState ''Pause'')) = []"
  using reset_finalizes_once [of started478 inputs478 9500 "''Pause''"]
    reset_finalizes_once [of "initialState ''Pause''" inputs478 9500 "''Pause''"]
  by (simp add: started478_def initialState_def resetCycle_def finalizeSessionIfActive_def
        Let_def)

section \<open>Start, pause and tick\<close>

text \<open>
  Claim C7. \<^verbatim>\<open>startCycle\<close> on a running timer returns at once: the whole state, with the
  cycle count, the phase index and the seconds left, stays as it is.
\<close>

theorem startCycle_running_noop:
  "running s \<Longrightarrow> startCycle inp now s = Some s"
  by (simp add: startCycle_def)

theorem startCycle_running_noop_witness:
  "running started478 \<and> startCycle inputs478 1000 started478 = Some started478"
  using startCycle_running_noop [of started478 inputs478 1000]
  by (simp add: started478_def)

text \<open>
  Claim C8. While \<^verbatim>\<open>paused\<close> is set, any number of ticks leaves the whole state as it
  is. So on a running, unpaused timer, pausing, any ticks and resuming give the same
  state (the seconds left among the rest) as pausing and resuming at once.
\<close>

theorem paused_ticks_frame:
  "(paused s \<longrightarrow> run (map Tick tks) s = Some s) \<and>
   (running s \<and> \<not> paused s \<longrightarrow>
      run (PauseToggle # map Tick tks @ [PauseToggle]) s = run [PauseToggle, PauseToggle] s)"
  by (simp add: run_ticks_paused run_append pauseOrResume_def)

theorem paused_ticks_frame_witness:
  "paused (started478\<lparr>paused := True\<rparr>) \<and>
   run (map Tick [(1000, 1001), (2000, 2001), (3000, 3001), (4000, 4001), (5000, 5001)])
     (started478\<lparr>paused := True\<rparr>)
     = Some (started478\<lparr>paused := True\<rparr>) \<and>
   running started478 \<and> \<not> paused started478 \<and>
   run (PauseToggle #
        map Tick [(1000, 1001), (2000, 2001), (3000, 3001), (4000, 4001), (5000, 5001)] @
        [PauseToggle]) started478
     = run [PauseToggle, PauseToggle] started478"
  using paused_ticks_frame [of "started478\<lparr>paused := True\<rparr>"
      "[(1000, 1001), (2000, 2001), (3000, 3001), (4000, 4001), (5000, 5001)]"]
    paused_ticks_frame [of started478
      "[(1000, 1001), (2000, 2001), (3000, 3001), (4000, 4001), (5000, 5001)]"]
  by (simp add: started478_def)

text \<open>
  Claim C10. \<^verbatim>\<open>pauseOrResume\<close> on a timer that is not running changes nothing, the
  \<^verbatim>\<open>paused\<close> flag included, and the session that \<^verbatim>\<open>startCycle\<close> opens next is not paused.
\<close>

theorem pauseOrResume_idle_noop:
  "\<not> running s \<Longrightarrow>
     pauseOrResume s = s \<and>
     map_option paused (startCycle inp now (pauseOrResume s)) = Some False"
  by (simp add: pauseOrResume_def startCycle_def setup_cycle startPhase_def Let_def)

theorem pauseOrResume_idle_noop_witness:
  "\<not> running (initialState ''Pause'') \<and>
   pauseOrResume (initialState ''Pause'') = initialState ''Pause'' \<and>
   map_option paused (startCycle inputs478 0 (pauseOrResume (initialState ''Pause'')))
     = Some False"
proof -
  have idle: "\<not> running (initialState ''Pause'')"
    by (simp add: initialState_def)
  from pauseOrResume_idle_noop [OF idle, of inputs478 0] idle show ?thesis
    by blast
qed

section \<open>Invariants of the reachable states\<close>

lemma startCycle_flags:
  assumes "flagsInv s"
  shows "\<exists>s'. startCycle inp now s = Some s' \<and> flagsInv s'"
proof (cases "running s")
  case True
  with assms show ?thesis by (simp add: startCycle_def)
next
  case False
  with assms show ?thesis
    by (simp add: startCycle_def setupCycleFromInputs_def startPhase_def Let_def flagsInv_def)
qed

lemma tick_flags:
  assumes "flagsInv s"
  shows "\<exists>s'. tick reads s = Some s' \<and> flagsInv s'"
proof (cases "timer s")
  case None
  with assms show ?thesis by (simp add: tick_def)
next
  case (Some current)
  with assms have "cycle s \<noteq> []"
    by (simp add: flagsInv_def)
  then have "(cycleIndex s + 1) mod length (cycle s) < length (cycle s)"
    by simp
  with assms Some show ?thesis
    by (simp add: tick_def timerCallback_def Let_def flagsInv_def addHistoryPhase_def
          addProgressForToday_def startPhase_def)
qed

lemma step_flags:
  assumes "flagsInv s"
  shows "\<exists>s'. step e s = Some s' \<and> flagsInv s'"
proof (cases e)
  case (Start inp now)
  with assms show ?thesis by (simp add: startCycle_flags)
next
  case (Tick reads)
  with assms show ?thesis by (simp add: tick_flags)
next
  case PauseToggle
  with assms show ?thesis by (simp add: pauseOrResume_def flagsInv_def)
next
  case (Reset inp now)
  with assms show ?thesis
    by (simp add: resetCycle_def finalizeSessionIfActive_def Let_def flagsInv_def)
next
  case (Clear confirmed)
  with assms show ?thesis by (simp add: clearAllHistory_def flagsInv_def)
qed

lemma run_flags: "flagsInv s \<Longrightarrow> \<exists>s'. run es s = Some s' \<and> flagsInv s'"
proof (induction es arbitrary: s)
  case Nil
  then show ?case by simp
next
  case (Cons e es)
  from step_flags [OF Cons.prems, of e] obtain s1 where "step e s = Some s1" "flagsInv s1"
    by blast
  with Cons.IH [of s1] show ?case by simp
qed








text \<open>
  Claim C9. In every state reached from the initial state by Start, Tick, PauseToggle,
  Reset and Clear events, \<^verbatim>\<open>running\<close> and \<^verbatim>\<open>sessionActive\<close> are equal, whatever
  \<^verbatim>\<open>loadFromStorage\<close> put into the three stores at boot.
\<close>

theorem running_iff_sessionActive:
  "\<exists>s. run es ((initialState label)
                  \<lparr>historyData := stored, sessionSummaries := summaries,
                   progressData := progress\<rparr>) = Some s \<and>
       running s = sessionActive s"
proof -
  have "flagsInv ((initialState label)
                   \<lparr>historyData := stored, sessionSummaries := summaries,
                    progressData := progress\<rparr>)"
    by (simp add: flagsInv_def initialState_def)
  from run_flags [OF this, of es] show ?thesis
    by (auto simp add: flagsInv_def)
qed

section \<open>One full cycle\<close>

lemma tick_final:
  assumes "timer s = Some current" "\<not> paused s" "timeLeft s \<le> 1" "cycle s \<noteq> []"
  shows "\<exists>s'. tick reads s = Some s' \<and> phaseDone reads current s s'"
proof -
  from assms(4) have "(cycleIndex s + 1) mod length (cycle s) < length (cycle s)"
    by simp
  with assms show ?thesis
    by (cases "phaseSpec.phase current = Exhale")
      (simp_all add: tick_def timerCallback_def Let_def phaseDone_def toLowerCase_phaseText
        toLowerCase_Exhale addHistoryPhase_def addProgressForToday_def startPhase_def
        progressCount_def)
qed

lemma phaseDone_frame:
  "phaseDone reads current (s\<lparr>timeLeft := x, timeDisplay := y\<rparr>) s' = phaseDone reads current s s'"
  by (simp add: phaseDone_def progressCount_def)

lemma phase_run:
  assumes "timer s = Some current" "\<not> paused s" "timeLeft s = int (length tks) + 1"
    "cycle s \<noteq> []"
  shows "\<exists>s'. run (map Tick (tks @ [reads])) s = Some s' \<and> phaseDone reads current s s'"
  using assms
proof (induction tks arbitrary: s)
  case Nil
  then show ?case
    using tick_final [of s current reads] by auto
next
  case (Cons t tks)
  let ?s1 = "s\<lparr>timeLeft := timeLeft s - 1,
                timeDisplay := padStart 2 CHR ''0'' (numToString (timeLeft s - 1))\<rparr>"
  from Cons.prems have first: "tick t s = Some ?s1"
    by (intro tick_countdown) simp_all
  from Cons.prems have
    "\<exists>s'. run (map Tick (tks @ [reads])) ?s1 = Some s' \<and> phaseDone reads current ?s1 s'"
    by (intro Cons.IH) simp_all
  then show ?case
    using first by (simp add: phaseDone_frame)
qed

lemma startCycle_fresh:
  assumes "\<not> running s" "\<not> sessionActive s"
    "parseInt (inhaleInput inp) = Some a" "0 < a"
    "parseInt (holdInput inp) = Some b" "0 < b"
    "parseInt (exhaleInput inp) = Some c" "0 < c"
  shows "\<exists>s0. startCycle inp now s = Some s0 \<and>
           cycle s0 = [\<lparr>phaseSpec.phase = Inhale, phaseSpec.duration = a\<rparr>,
                       \<lparr>phaseSpec.phase = Hold, phaseSpec.duration = b\<rparr>,
                       \<lparr>phaseSpec.phase = Exhale, phaseSpec.duration = c\<rparr>] \<and>
           cycleIndex s0 = 0 \<and>
           timer s0 = Some \<lparr>phaseSpec.phase = Inhale, phaseSpec.duration = a\<rparr> \<and>
           timeLeft s0 = a \<and> \<not> paused s0 \<and> sessionCycles s0 = 0 \<and>
           historyData s0 = historyData s \<and> progressData s0 = progressData s"
  using assms
  by (simp add: startCycle_def setupCycleFromInputs_def startPhase_def Let_def orDefault_def)

lemma one_cycle_split:
  assumes "\<not> running s" "\<not> sessionActive s"
    "parseInt (inhaleInput inp) = Some a" "0 < a"
    "parseInt (holdInput inp) = Some b" "0 < b"
    "parseInt (exhaleInput inp) = Some c" "0 < c"
    "int (length tksA) + 1 = a" "int (length tksB) + 1 = b" "int (length tksC) + 1 = c"
  shows "\<exists>s'. run (Start inp now # map Tick ((tksA @ [ta]) @ (tksB @ [tb]) @ (tksC @ [tc]))) s
                 = Some s' \<and>
           sessionCycles s' = 1 \<and>
           progressData s' = (progressData s)(dayOf (snd tc) \<mapsto> progressCount s (dayOf (snd tc)) + 1) \<and>
           historyData s' =
             historyData s @ [\<lparr>ts = fst ta, phase = Inhale, duration = a\<rparr>,
                              \<lparr>ts = fst tb, phase = Hold, duration = b\<rparr>,
                              \<lparr>ts = fst tc, phase = Exhale, duration = c\<rparr>]"
proof -
  let ?I = "\<lparr>phaseSpec.phase = Inhale, phaseSpec.duration = a\<rparr>"
  let ?H = "\<lparr>phaseSpec.phase = Hold, phaseSpec.duration = b\<rparr>"
  let ?E = "\<lparr>phaseSpec.phase = Exhale, phaseSpec.duration = c\<rparr>"
  from startCycle_fresh [OF assms(1-8), of now] obtain s0 where
    s0: "startCycle inp now s = Some s0" "cycle s0 = [?I, ?H, ?E]" "cycleIndex s0 = 0"
      "timer s0 = Some ?I" "timeLeft s0 = a" "\<not> paused s0" "sessionCycles s0 = 0"
      "historyData s0 = historyData s" "progressData s0 = progressData s"
    by blast
  from s0 assms(9) have "\<exists>s'. run (map Tick (tksA @ [ta])) s0 = Some s' \<and> phaseDone ta ?I s0 s'"
    by (intro phase_run) simp_all
  then obtain s1 where r1: "run (map Tick (tksA @ [ta])) s0 = Some s1"
    and d1: "phaseDone ta ?I s0 s1"
    by blast
  from d1 s0 have s1: "cycle s1 = [?I, ?H, ?E]" "cycleIndex s1 = 1" "timer s1 = Some ?H"
    "timeLeft s1 = b" "\<not> paused s1" "sessionCycles s1 = 0"
    "historyData s1 = historyData s @ [\<lparr>ts = fst ta, phase = Inhale, duration = a\<rparr>]"
    "progressData s1 = progressData s"
    by (simp_all add: phaseDone_def Let_def)
  from s1 assms(10) have "\<exists>s'. run (map Tick (tksB @ [tb])) s1 = Some s' \<and> phaseDone tb ?H s1 s'"
    by (intro phase_run) simp_all
  then obtain s2 where r2: "run (map Tick (tksB @ [tb])) s1 = Some s2"
    and d2: "phaseDone tb ?H s1 s2"
    by blast
  from d2 s1 have s2: "cycle s2 = [?I, ?H, ?E]" "cycleIndex s2 = 2" "timer s2 = Some ?E"
    "timeLeft s2 = c" "\<not> paused s2" "sessionCycles s2 = 0"
    "historyData s2 = historyData s @ [\<lparr>ts = fst ta, phase = Inhale, duration = a\<rparr>,
                                       \<lparr>ts = fst tb, phase = Hold, duration = b\<rparr>]"
    "progressData s2 = progressData s"
    by (simp_all add: phaseDone_def Let_def)
  from s2 assms(11) have "\<exists>s'. run (map Tick (tksC @ [tc])) s2 = Some s' \<and> phaseDone tc ?E s2 s'"
    by (intro phase_run) simp_all
  then obtain s3 where r3: "run (map Tick (tksC @ [tc])) s2 = Some s3"
    and d3: "phaseDone tc ?E s2 s3"
    by blast
  from d3 s2 have s3: "sessionCycles s3 = 1"
    "historyData s3 = historyData s @ [\<lparr>ts = fst ta, phase = Inhale, duration = a\<rparr>,
                                       \<lparr>ts = fst tb, phase = Hold, duration = b\<rparr>,
                                       \<lparr>ts = fst tc, phase = Exhale, duration = c\<rparr>]"
    "progressData s3 = (progressData s)(dayOf (snd tc) \<mapsto> progressCount s (dayOf (snd tc)) + 1)"
    by (simp_all add: phaseDone_def Let_def progressCount_def)
  have "run (Start inp now # map Tick ((tksA @ [ta]) @ (tksB @ [tb]) @ (tksC @ [tc]))) s = Some s3"
    using s0(1) r1 r2 r3 by (simp only: run.simps step.simps map_append run_append option.case)
  with s3 show ?thesis
    by blast
qed

lemma split_three:
  assumes "length xs = Suc i + Suc j + Suc k"
  shows "xs = (take i xs @ [xs ! i]) @ (take j (drop (Suc i) xs) @ [xs ! (Suc i + j)]) @
              (take k (drop (Suc i + Suc j) xs) @ [last xs])"
proof -
  have first: "take i xs @ [xs ! i] = take (Suc i) xs"
    using assms by (simp add: take_Suc_conv_app_nth)
  have second: "take j (drop (Suc i) xs) @ [xs ! (Suc i + j)] = take (Suc j) (drop (Suc i) xs)"
    using assms by (simp add: take_Suc_conv_app_nth)
  let ?ys = "drop (Suc i + Suc j) xs"
  have len: "length ?ys = Suc k"
    using assms by simp
  then have "?ys \<noteq> []"
    by auto
  then have whole: "butlast ?ys @ [last ?ys] = ?ys"
    by (rule append_butlast_last_id)
  have front: "butlast ?ys = take k ?ys"
    using len by (simp add: butlast_conv_take)
  have final: "last ?ys = last xs"
    using assms by (intro last_drop) simp
  have third: "take k ?ys @ [last xs] = ?ys"
    using whole unfolding front final .
  have rest: "drop (Suc j) (drop (Suc i) xs) = ?ys"
    by (simp add: add.commute)
  have "take (Suc i) xs @ take (Suc j) (drop (Suc i) xs) @ ?ys = xs"
    unfolding rest [symmetric] by (simp only: append_take_drop_id)
  then show ?thesis
    unfolding first second third by (rule sym)
qed

text \<open>
  Claim C3. On a stopped timer with no session, with inputs that read as the positive
  durations \<open>a\<close>, \<open>b\<close>, \<open>c\<close>, Start followed by exactly \<open>a + b + c\<close> ticks runs
  without an error and ends with one completed cycle, the progress of the day that the
  last tick reads for the progress key raised by one (no other day touched), and three
  entries appended to the ledger: Inhale of \<open>a\<close> seconds at tick \<open>a\<close>, Hold of \<open>b\<close>
  seconds at tick \<open>a + b\<close>, Exhale of \<open>c\<close> seconds at the last tick, each with the
  clock value that its tick reads for the entry.
\<close>

theorem one_full_cycle:
  assumes "\<not> running s" "\<not> sessionActive s"
    "parseInt (inhaleInput inp) = Some a" "0 < a"
    "parseInt (holdInput inp) = Some b" "0 < b"
    "parseInt (exhaleInput inp) = Some c" "0 < c"
    "length tks = nat (a + b + c)"
  shows "\<exists>s'. run (Start inp now # map Tick tks) s = Some s' \<and>
           sessionCycles s' = 1 \<and>
           progressCount s' (dayOf (snd (last tks))) = progressCount s (dayOf (snd (last tks))) + 1 \<and>
           progressData s' =
             (progressData s)(dayOf (snd (last tks)) \<mapsto> progressCount s (dayOf (snd (last tks))) + 1) \<and>
           historyData s' =
             historyData s @ [\<lparr>ts = fst (tks ! (nat a - 1)), phase = Inhale, duration = a\<rparr>,
                              \<lparr>ts = fst (tks ! (nat (a + b) - 1)), phase = Hold, duration = b\<rparr>,
                              \<lparr>ts = fst (last tks), phase = Exhale, duration = c\<rparr>]"
proof -
  define i j k where "i = nat a - 1" and "j = nat b - 1" and "k = nat c - 1"
  with assms(4,6,8) have abc: "a = int (Suc i)" "b = int (Suc j)" "c = int (Suc k)"
    by simp_all
  with assms(9) have len: "length tks = Suc i + Suc j + Suc k"
    by simp
  let ?A = "take i tks" and ?B = "take j (drop (Suc i) tks)"
    and ?C = "take k (drop (Suc i + Suc j) tks)"
  from len have lens: "int (length ?A) + 1 = a" "int (length ?B) + 1 = b"
    "int (length ?C) + 1 = c"
    using abc by simp_all
  have whole: "(?A @ [tks ! i]) @ (?B @ [tks ! (Suc i + j)]) @ (?C @ [last tks]) = tks"
    using split_three [OF len] by simp
  have "\<exists>s'. run (Start inp now #
                 map Tick ((?A @ [tks ! i]) @ (?B @ [tks ! (Suc i + j)]) @ (?C @ [last tks]))) s
               = Some s' \<and>
           sessionCycles s' = 1 \<and>
           progressData s' =
             (progressData s)(dayOf (snd (last tks)) \<mapsto> progressCount s (dayOf (snd (last tks))) + 1) \<and>
           historyData s' =
             historyData s @ [\<lparr>ts = fst (tks ! i), phase = Inhale, duration = a\<rparr>,
                              \<lparr>ts = fst (tks ! (Suc i + j)), phase = Hold, duration = b\<rparr>,
                              \<lparr>ts = fst (last tks), phase = Exhale, duration = c\<rparr>]"
    by (rule one_cycle_split [OF assms(1-8) lens])
  then obtain s' where
    "run (Start inp now # map Tick tks) s = Some s'" "sessionCycles s' = 1"
    "progressData s' =
       (progressData s)(dayOf (snd (last tks)) \<mapsto> progressCount s (dayOf (snd (last tks))) + 1)"
    "historyData s' =
       historyData s @ [\<lparr>ts = fst (tks ! i), phase = Inhale, duration = a\<rparr>,
                        \<lparr>ts = fst (tks ! (Suc i + j)), phase = Hold, duration = b\<rparr>,
                        \<lparr>ts = fst (last tks), phase = Exhale, duration = c\<rparr>]"
    unfolding whole by blast
  moreover have "nat a - 1 = i" "nat (a + b) - 1 = Suc i + j"
    using abc by simp_all
  ultimately show ?thesis
    by (auto simp add: progressCount_def)
qed

text \<open>
  The theorem at the inputs 4, 7, 8 on a fresh page, with 19 ticks one second apart.
\<close>

theorem one_full_cycle_witness:
  "\<not> running (initialState ''Pause'') \<and> \<not> sessionActive (initialState ''Pause'') \<and>
   parseInt (inhaleInput inputs478) = Some 4 \<and> parseInt (holdInput inputs478) = Some 7 \<and>
   parseInt (exhaleInput inputs478) = Some 8 \<and>
   length ([(1000, 1001), (2000, 2001), (3000, 3001), (4000, 4001), (5000, 5001), (6000,
           6001), (7000, 7001), (8000, 8001), (9000, 9001), (10000, 10001), (11000, 11001),
           (12000, 12001), (13000, 13001), (14000, 14001), (15000, 15001), (16000, 16001),
           (17000, 17001), (18000, 18001), (19000, 19001)]
           :: (int \<times> int) list) = nat (4 + 7 + 8) \<and>
   (\<exists>s'. run (Start inputs478 0 #
               map Tick
                 [(1000, 1001), (2000, 2001), (3000, 3001), (4000, 4001), (5000, 5001),
                 (6000, 6001), (7000, 7001), (8000, 8001), (9000, 9001), (10000, 10001),
                 (11000, 11001), (12000, 12001), (13000, 13001), (14000, 14001), (15000,
                 15001), (16000, 16001), (17000, 17001), (18000, 18001), (19000, 19001)])
             (initialState ''Pause'') = Some s' \<and>
         sessionCycles s' = 1 \<and> progressCount s' 0 = 1 \<and>
         historyData s' = [\<lparr>ts = 4000, phase = Inhale, duration = 4\<rparr>,
                           \<lparr>ts = 11000, phase = Hold, duration = 7\<rparr>,
                           \<lparr>ts = 19000, phase = Exhale, duration = 8\<rparr>])"
proof -
  have idle: "\<not> running (initialState ''Pause'')" "\<not> sessionActive (initialState ''Pause'')"
    by (simp_all add: initialState_def)
  have inp: "parseInt (inhaleInput inputs478) = Some 4" "parseInt (holdInput inputs478) = Some 7"
    "parseInt (exhaleInput inputs478) = Some 8"
    by (simp_all add: inputs478_def parseInt_478)
  have len: "length ([(1000, 1001), (2000, 2001), (3000, 3001), (4000, 4001), (5000, 5001), (6000,
           6001), (7000, 7001), (8000, 8001), (9000, 9001), (10000, 10001), (11000, 11001),
           (12000, 12001), (13000, 13001), (14000, 14001), (15000, 15001), (16000, 16001),
           (17000, 17001), (18000, 18001), (19000, 19001)]
           :: (int \<times> int) list) = nat (4 + 7 + 8)"
    by simp
  from one_full_cycle [OF idle inp(1) _ inp(2) _ inp(3) _ len, of 0]
  show ?thesis
    using idle inp
    by (auto simp add: dayOf_def msPerDay_def progressCount_def initialState_def)
qed

end
